theory Spec2Isabelle
  imports Main
begin

section \<open>JavaScript values\<close>

text \<open>
  The queue of \<^verbatim>\<open>src/queryinterface.js\<close> stores and hands back arbitrary JavaScript
  values, tests them for truthiness, reads properties off option objects and asks whether
  a payload is an \<^verbatim>\<open>Error\<close>. The values are modelled by one datatype. Numbers are
  restricted to integers. A function value is a zero-argument producer and is represented
  by what one call of it completes with; a producer does not reach into the queues.
  A \<^verbatim>\<open>QueryInterface\<close> object is a reference (an address of the store below). Promises
  are not payloads: they only appear as what a call completes with.
\<close>

text \<open>
  Modelled from the spec: the module \<^verbatim>\<open>./errors\<close> (required at line 25) is not part of
  the sources. The spec names its three classes: \<^verbatim>\<open>BaseError\<close>, the generic error-typed
  wrapper built around a failure payload, and the two native errors
  \<^verbatim>\<open>InvalidQueryResult\<close> and \<^verbatim>\<open>EmptyQueryQueue\<close>. \<open>TypeError\<close> is the error of the
  language itself (reading a property of \<^verbatim>\<open>null\<close> or \<^verbatim>\<open>undefined\<close>, calling a value that
  is no function); \<open>UserError\<close> stands for every other class derived from \<^verbatim>\<open>Error\<close>.
\<close>

datatype errclass =
    BaseError
  | InvalidQueryResultError
  | EmptyQueryQueueError
  | TypeError
  | UserError string

datatype jsval =
    JUndefined
  | JNull
  | JBool bool
  | JNum int
  | JStr string
  | JArray "jsval list"
  | JObject "(string \<times> jsval) list"
  | JError errclass jsval
  | JFunction completion
  | JQueue nat
and completion =
    Returned jsval
  | Thrown jsval
  | Resolved jsval
  | Rejected jsval

text \<open>
  A completion is what a call expression evaluates to: \<open>Returned v\<close> is a plain value,
  \<open>Thrown e\<close> a synchronous \<^verbatim>\<open>throw\<close>, \<open>Resolved v\<close> the promise of
  \<^verbatim>\<open>bluebird.resolve(v)\<close> and \<open>Rejected v\<close> the promise of \<^verbatim>\<open>bluebird.reject(v)\<close>.
\<close>

fun typeof :: "jsval \<Rightarrow> string" where
  "typeof JUndefined = ''undefined''"
| "typeof JNull = ''object''"
| "typeof (JBool b) = ''boolean''"
| "typeof (JNum n) = ''number''"
| "typeof (JStr s) = ''string''"
| "typeof (JArray xs) = ''object''"
| "typeof (JObject ps) = ''object''"
| "typeof (JError c v) = ''object''"
| "typeof (JFunction c) = ''function''"
| "typeof (JQueue a) = ''object''"

fun truthy :: "jsval \<Rightarrow> bool" where
  "truthy JUndefined = False"
| "truthy JNull = False"
| "truthy (JBool b) = b"
| "truthy (JNum n) = (n \<noteq> 0)"
| "truthy (JStr s) = (s \<noteq> [])"
| "truthy (JArray xs) = True"
| "truthy (JObject ps) = True"
| "truthy (JError c v) = True"
| "truthy (JFunction c) = True"
| "truthy (JQueue a) = True"

fun nullish :: "jsval \<Rightarrow> bool" where
  "nullish JUndefined = True"
| "nullish JNull = True"
| "nullish v = False"

fun instanceof_Error :: "jsval \<Rightarrow> bool" where
  "instanceof_Error (JError c v) = True"
| "instanceof_Error v = False"

fun instanceof_Array :: "jsval \<Rightarrow> bool" where
  "instanceof_Array (JArray xs) = True"
| "instanceof_Array v = False"

text \<open>
  \<open>getprop v k\<close> reads the property \<open>k\<close> of a value that is neither \<^verbatim>\<open>null\<close> nor
  \<^verbatim>\<open>undefined\<close>: the stored value for a plain object that has the key, \<^verbatim>\<open>undefined\<close>
  otherwise (none of the property names the queue reads exists on a primitive, an array,
  an error, a function or a \<^verbatim>\<open>QueryInterface\<close>). Reading a property of \<^verbatim>\<open>null\<close> or
  \<^verbatim>\<open>undefined\<close> raises a \<open>TypeError\<close>; the functions below test \<open>nullish\<close> before
  every read that can meet one.
\<close>

definition getprop :: "jsval \<Rightarrow> string \<Rightarrow> jsval" where
  "getprop v k =
     (case v of
        JObject ps \<Rightarrow> (case map_of ps k of None \<Rightarrow> JUndefined | Some x \<Rightarrow> x)
      | _ \<Rightarrow> JUndefined)"

text \<open>The idiom \<^verbatim>\<open>options || {}\<close>.\<close>

definition or_empty :: "jsval \<Rightarrow> jsval" where
  "or_empty v = (if truthy v then v else JObject [])"

text \<open>
  Calling a value with no arguments: a function completes as it is written to, anything
  else is not callable.
\<close>

fun call :: "jsval \<Rightarrow> completion" where
  "call (JFunction c) = c"
| "call v = Thrown (JError TypeError JUndefined)"

section \<open>The QueryInterface object and the store\<close>

text \<open>
  Lines 39-42. The field \<^verbatim>\<open>_results\<close> is named \<open>results\<close>. Queues refer to their parent
  by reference and a delegated call mutates the parent, so the objects live in a store
  indexed by address; \<open>this\<close> is an address.
\<close>

record QueryInterface =
  options :: jsval
  results :: "jsval list"

type_synonym heap = "nat \<Rightarrow> QueryInterface"

definition new_QueryInterface :: "jsval \<Rightarrow> QueryInterface" where
  "new_QueryInterface opts = \<lparr>options = or_empty opts, results = []\<rparr>"

section \<open>Enqueue operations\<close>

text \<open>Lines 54-62. The method returns \<^verbatim>\<open>this\<close>.\<close>

definition queueResult :: "heap \<Rightarrow> nat \<Rightarrow> jsval \<Rightarrow> jsval \<Rightarrow> jsval \<times> heap" where
  "queueResult h this result opts =
     (JQueue this,
      h(this := (h this)\<lparr>results := results (h this) @
          [JObject [(''content'', result),
                    (''options'', or_empty opts),
                    (''type'', JStr ''Success'')]]\<rparr>))"

text \<open>Lines 76-90, also reachable under the name \<^verbatim>\<open>$queueError\<close>.\<close>

definition queueFailure :: "heap \<Rightarrow> nat \<Rightarrow> jsval \<Rightarrow> jsval \<Rightarrow> jsval \<times> heap" where
  "queueFailure h this error opts =
     (let error' =
            (if (\<not> truthy opts \<or> getprop opts ''convertNonErrors'' \<noteq> JBool False)
                \<and> \<not> instanceof_Error error
             then JError BaseError error
             else error)
      in (JQueue this,
          h(this := (h this)\<lparr>results := results (h this) @
              [JObject [(''content'', error'),
                        (''options'', or_empty opts),
                        (''type'', JStr ''Failure'')]]\<rparr>)))"

definition queueError :: "heap \<Rightarrow> nat \<Rightarrow> jsval \<Rightarrow> jsval \<Rightarrow> jsval \<times> heap" where
  "queueError = queueFailure"

section \<open>Clearing\<close>

text \<open>
  Lines 100-111. The recursion follows the parent references and does not end on a cyclic
  chain, so the function is partial: \<open>None\<close> is a call that does not return. A parent that
  is truthy but no \<^verbatim>\<open>QueryInterface\<close> has no method \<^verbatim>\<open>$clearQueue\<close>.
\<close>

partial_function (option) clearQueue :: "heap \<Rightarrow> nat \<Rightarrow> jsval \<Rightarrow> (completion \<times> heap) option" where
  "clearQueue h this opts0 =
     (let opts = or_empty opts0;
          h1 = h(this := (h this)\<lparr>results := []\<rparr>)
      in if truthy (getprop opts ''propagateClear'') \<and> nullish (options (h1 this))
         then Some (Thrown (JError TypeError JUndefined), h1)
         else if truthy (getprop opts ''propagateClear'') \<and> truthy (getprop (options (h1 this)) ''parent'')
         then (case getprop (options (h1 this)) ''parent'' of
                 JQueue p \<Rightarrow>
                   Option.bind (clearQueue h1 p opts)
                     (\<lambda>(r, h2). case r of
                          Thrown e \<Rightarrow> Some (Thrown e, h2)
                        | _ \<Rightarrow> Some (Returned (JQueue this), h2))
               | _ \<Rightarrow> Some (Thrown (JError TypeError JUndefined), h1))
         else Some (Returned (JQueue this), h1))"

section \<open>The consume operation\<close>

text \<open>
  Lines 125-169. Delegation is a call of the parent's \<^verbatim>\<open>$query\<close> with the same options
  object and may go on for ever on a cyclic chain (until the engine runs out of stack);
  \<open>None\<close> is a call that does not return. The entry is shifted off the queue before
  it is examined, so every branch for a non-empty queue returns the shortened queue, the
  throwing ones included.
\<close>

partial_function (option) query :: "heap \<Rightarrow> nat \<Rightarrow> jsval \<Rightarrow> (completion \<times> heap) option" where
  "query h this opts0 =
     (let opts = or_empty opts0;
          cfg = options (h this)
      in if \<not> truthy (getprop opts ''fallbackFn'') \<and> nullish cfg
         then Some (Thrown (JError TypeError JUndefined), h)
         else
           let fallbackFn =
                 (if truthy (getprop opts ''fallbackFn'') then getprop opts ''fallbackFn''
                  else getprop cfg ''fallbackFn'')
           in case results (h this) of
                result # rest \<Rightarrow>
                  Some
                   (if typeof result \<noteq> ''object'' then Thrown (JError InvalidQueryResultError JUndefined)
                    else if nullish result then Thrown (JError TypeError JUndefined)
                    else if \<not> (getprop result ''type'' = JStr ''Failure'' \<or> getprop result ''type'' = JStr ''Success'')
                    then Thrown (JError InvalidQueryResultError JUndefined)
                    else if getprop result ''type'' = JStr ''Failure''
                    then Rejected (getprop result ''content'')
                    else if truthy (getprop opts ''includeCreated'')
                    then
                      (if nullish cfg \<or> nullish (getprop result ''options'')
                       then Thrown (JError TypeError JUndefined)
                       else
                         let created = True;
                             created = (if typeof (getprop cfg ''createdDefault'') \<noteq> ''undefined''
                                        then truthy (getprop cfg ''createdDefault'') else created);
                             created = (if typeof (getprop (getprop result ''options'') ''wasCreated'') \<noteq> ''undefined''
                                        then truthy (getprop (getprop result ''options'') ''wasCreated'') else created)
                         in Resolved (JArray [getprop result ''content'', JBool created]))
                    else if truthy (getprop opts ''includeAffectedRows'')
                    then
                      (if nullish (getprop result ''options'')
                       then Thrown (JError TypeError JUndefined)
                       else
                         let affectedRows = JArray [];
                             affectedRows = (if instanceof_Array (getprop (getprop result ''options'') ''affectedRows'')
                                             then getprop (getprop result ''options'') ''affectedRows''
                                             else affectedRows)
                         in Resolved (JArray [getprop result ''content'', affectedRows]))
                    else Resolved (getprop result ''content''),
                    h(this := (h this)\<lparr>results := rest\<rparr>))
              | [] \<Rightarrow>
                  if \<not> truthy (getprop opts ''stopPropagation'') \<and> nullish cfg
                  then Some (Thrown (JError TypeError JUndefined), h)
                  else if \<not> truthy (getprop opts ''stopPropagation'')
                          \<and> \<not> truthy (getprop cfg ''stopPropagation'')
                          \<and> truthy (getprop cfg ''parent'')
                  then (case getprop cfg ''parent'' of
                          JQueue p \<Rightarrow> query h p opts
                        | _ \<Rightarrow> Some (Thrown (JError TypeError JUndefined), h))
                  else if truthy fallbackFn
                  then Some (call fallbackFn, h)
                  else Some (Thrown (JError EmptyQueryQueueError JUndefined), h))"

section \<open>Call sequences, parent chains and sample stores\<close>

text \<open>
  A test script is a list of enqueue calls on one queue, followed by a number of
  \<^verbatim>\<open>$query()\<close> calls whose completions are collected in order.
\<close>

datatype enqueue = QueueResult jsval jsval | QueueFailure jsval jsval

fun enqueue_all :: "heap \<Rightarrow> nat \<Rightarrow> enqueue list \<Rightarrow> heap" where
  "enqueue_all h this [] = h"
| "enqueue_all h this (QueueResult c opts # cs) =
     enqueue_all (snd (queueResult h this c opts)) this cs"
| "enqueue_all h this (QueueFailure e opts # cs) =
     enqueue_all (snd (queueFailure h this e opts)) this cs"

fun query_n :: "heap \<Rightarrow> nat \<Rightarrow> nat \<Rightarrow> (completion list \<times> heap) option" where
  "query_n h this 0 = Some ([], h)"
| "query_n h this (Suc n) =
     Option.bind (query h this JUndefined)
       (\<lambda>(c, h1). Option.bind (query_n h1 this n) (\<lambda>(cs, h2). Some (c # cs, h2)))"

text \<open>
  Two readings of what a script hands over. \<open>payload_outcome\<close> is the FIFO law word for
  word: the matching query resolves with, or rejects with, the payload the enqueue call
  was given. \<open>fifo_outcome\<close> is the law over the contents as stored: \<open>stored_content\<close>
  is the payload of a success, and for a failure the payload or its wrapper, as the
  normalization policy of \<^verbatim>\<open>queueFailure\<close> in the specification words it.
\<close>

fun payload_outcome :: "enqueue \<Rightarrow> completion" where
  "payload_outcome (QueueResult c opts) = Resolved c"
| "payload_outcome (QueueFailure e opts) = Rejected e"

fun stored_content :: "enqueue \<Rightarrow> jsval" where
  "stored_content (QueueResult c opts) = c"
| "stored_content (QueueFailure e opts) =
     (if (opts = JUndefined \<or> getprop opts ''convertNonErrors'' \<noteq> JBool False)
         \<and> \<not> instanceof_Error e
      then JError BaseError e else e)"

fun fifo_outcome :: "enqueue \<Rightarrow> completion" where
  "fifo_outcome (QueueResult c opts) = Resolved (stored_content (QueueResult c opts))"
| "fifo_outcome (QueueFailure e opts) = Rejected (stored_content (QueueFailure e opts))"

fun stored_entry :: "enqueue \<Rightarrow> jsval" where
  "stored_entry (QueueResult c opts) =
     JObject [(''content'', c), (''options'', or_empty opts), (''type'', JStr ''Success'')]"
| "stored_entry (QueueFailure e opts) =
     JObject [(''content'', stored_content (QueueFailure e opts)),
              (''options'', or_empty opts), (''type'', JStr ''Failure'')]"

text \<open>
  \<open>delegation_path h opts a bs\<close>: starting at \<open>a\<close>, every queue on the way has nothing
  pending, is not stopped (neither by the call nor by its own configuration) and has the
  next element of \<open>bs\<close> as its parent.
\<close>

fun delegation_path :: "heap \<Rightarrow> jsval \<Rightarrow> nat \<Rightarrow> nat list \<Rightarrow> bool" where
  "delegation_path h opts a [] = True"
| "delegation_path h opts a (b # bs) =
     (results (h a) = []
      \<and> \<not> truthy (getprop (or_empty opts) ''stopPropagation'')
      \<and> \<not> truthy (getprop (options (h a)) ''stopPropagation'')
      \<and> getprop (options (h a)) ''parent'' = JQueue b
      \<and> delegation_path h opts b bs)"

text \<open>
  \<open>parent_chain h a bs\<close>: \<open>bs\<close> is the whole chain of ancestors of \<open>a\<close>, ending at a
  queue without a parent.
\<close>

fun parent_chain :: "heap \<Rightarrow> nat \<Rightarrow> nat list \<Rightarrow> bool" where
  "parent_chain h a [] =
     (\<not> nullish (options (h a)) \<and> \<not> truthy (getprop (options (h a)) ''parent''))"
| "parent_chain h a (b # bs) =
     (getprop (options (h a)) ''parent'' = JQueue b \<and> parent_chain h b bs)"

text \<open>The documented type of a flag, \<^verbatim>\<open>{Boolean} [flag]\<close>: a boolean, or left out.\<close>

fun optional_boolean :: "jsval \<Rightarrow> bool" where
  "optional_boolean JUndefined = True"
| "optional_boolean (JBool b) = True"
| "optional_boolean v = False"

text \<open>
  Sample stores: \<open>heap0\<close> holds freshly constructed queues only; in \<open>heap_AB\<close> queue 0
  was constructed with queue 1 as its parent; in \<open>heap_ABC\<close> queue 1 has parent 2 as well.
\<close>

definition heap0 :: heap where
  "heap0 = (\<lambda>a. new_QueryInterface JUndefined)"

definition heap_AB :: heap where
  "heap_AB = heap0(0 := new_QueryInterface (JObject [(''parent'', JQueue 1)]))"

definition heap_ABC :: heap where
  "heap_ABC = heap_AB(1 := new_QueryInterface (JObject [(''parent'', JQueue 2)]))"

text \<open>\<open>heap_boom\<close>: the fresh store after \<^verbatim>\<open>$queueFailure("boom")\<close> on queue 0.\<close>

definition heap_boom :: heap where
  "heap_boom = snd (queueFailure heap0 0 (JStr ''boom'') JUndefined)"

text \<open>
  \<open>heap_corrupt\<close>: queue 0 holds a number where an entry should be, followed by a proper
  success entry. \<open>heap_created\<close>: queue 0 after
  \<^verbatim>\<open>$queueResult("v", {wasCreated: false})\<close>. \<open>heap_plain\<close>: queue 0 after
  \<^verbatim>\<open>$queueResult("v")\<close>. \<open>heap_AB_populated\<close>: \<open>heap_AB\<close> after
  \<^verbatim>\<open>$queueResult("v")\<close> on the parent, queue 1.
\<close>

definition heap_corrupt :: heap where
  "heap_corrupt = heap0(0 := (heap0 0)\<lparr>results :=
      [JNum 5, stored_entry (QueueResult (JStr ''next'') JUndefined)]\<rparr>)"

definition heap_created :: heap where
  "heap_created = snd (queueResult heap0 0 (JStr ''v'') (JObject [(''wasCreated'', JBool False)]))"

definition heap_plain :: heap where
  "heap_plain = snd (queueResult heap0 0 (JStr ''v'') JUndefined)"

definition heap_AB_populated :: heap where
  "heap_AB_populated = snd (queueResult heap_AB 1 (JStr ''v'') JUndefined)"

text \<open>
  \<open>heap_ABC_populated\<close>: the chain 0, 1, 2 with \<^verbatim>\<open>"v"\<close> queued on the grandparent only.
  \<open>heap_fallback\<close>: queue 0 has parent 1 and a configured fallback producer of its own;
  queue 1 is fresh. \<open>heap_both\<close>: child 0 and parent 1 both hold one result.
  \<open>propagate\<close> is the options object \<^verbatim>\<open>{propagateClear: true}\<close> and \<open>script3\<close> a script
  of three enqueue calls.
\<close>

definition heap_ABC_populated :: heap where
  "heap_ABC_populated = snd (queueResult heap_ABC 2 (JStr ''v'') JUndefined)"

definition heap_fallback :: heap where
  "heap_fallback = heap0(0 := new_QueryInterface
      (JObject [(''parent'', JQueue 1), (''fallbackFn'', JFunction (Resolved (JNum 42)))]))"

definition heap_both :: heap where
  "heap_both = snd (queueResult (snd (queueResult heap_AB 0 (JNum 1) JUndefined)) 1 (JNum 2) JUndefined)"

definition propagate :: jsval where
  "propagate = JObject [(''propagateClear'', JBool True)]"

definition script3 :: "enqueue list" where
  "script3 = [QueueResult (JNum 1) JUndefined, QueueFailure (JStr ''boom'') JUndefined,
              QueueResult (JNum 3) (JObject [(''wasCreated'', JBool False)])]"

section \<open>Basic facts\<close>

lemma truthy_or_empty: "truthy (or_empty v)"
  by (simp add: or_empty_def)

lemma or_empty_idem: "or_empty (or_empty v) = or_empty v"
  by (simp add: or_empty_def)

lemma getprop_falsy: "\<not> truthy v \<Longrightarrow> getprop v k = JUndefined"
  by (cases v) (simp_all add: getprop_def)

lemma truthy_not_nullish: "truthy v \<Longrightarrow> \<not> nullish v"
  by (cases v) simp_all

lemma getprop_defined_object:
  "getprop v k \<noteq> JUndefined \<Longrightarrow> typeof v = ''object'' \<and> \<not> nullish v \<and> truthy v"
  by (cases v) (simp_all add: getprop_def)

lemma typeof_undefined: "typeof v = ''undefined'' \<longleftrightarrow> v = JUndefined"
  by (cases v) simp_all

lemma JError_neq: "JError c v \<noteq> v"
proof
  assume "JError c v = v"
  then have "size (JError c v) = size v" by simp
  then show False by simp
qed

lemma convert_flag:
  "(\<not> truthy opts \<or> getprop opts k \<noteq> JBool False)
     \<longleftrightarrow> (opts = JUndefined \<or> getprop opts k \<noteq> JBool False)"
  by (cases opts) (simp_all add: getprop_def)

lemma queueFailure_heap:
  "queueFailure h this e opts =
     (JQueue this,
      h(this := (h this)\<lparr>results := results (h this) @ [stored_entry (QueueFailure e opts)]\<rparr>))"
  by (simp only: queueFailure_def Let_def convert_flag stored_entry.simps stored_content.simps)

lemma queueResult_heap:
  "queueResult h this c opts =
     (JQueue this,
      h(this := (h this)\<lparr>results := results (h this) @ [stored_entry (QueueResult c opts)]\<rparr>))"
  by (simp add: queueResult_def)

lemma getprop_entry_Failure:
  "getprop (stored_entry (QueueFailure e opts)) ''type'' = JStr ''Failure''"
  "getprop (stored_entry (QueueFailure e opts)) ''content'' = stored_content (QueueFailure e opts)"
  by (simp_all add: getprop_def)

lemma getprop_entry_Success:
  "getprop (stored_entry (QueueResult c opts)) ''type'' = JStr ''Success''"
  "getprop (stored_entry (QueueResult c opts)) ''content'' = c"
  "getprop (stored_entry (QueueResult c opts)) ''options'' = or_empty opts"
  by (simp_all add: getprop_def)

lemma queueFailure_stored:
  "getprop (last (results (snd (queueFailure h this e opts) this))) ''content''
     = stored_content (QueueFailure e opts)"
proof -
  have "results (snd (queueFailure h this e opts) this)
          = results (h this) @ [stored_entry (QueueFailure e opts)]"
    by (simp add: queueFailure_heap)
  then show ?thesis
    by (simp only: last_snoc getprop_entry_Failure)
qed

section \<open>The consume operation, branch by branch\<close>

lemma query_or_empty: "query h this (or_empty opts) = query h this opts"
  by (subst (1 2) query.simps) (simp only: or_empty_idem)

lemma clearQueue_or_empty: "clearQueue h this (or_empty opts) = clearQueue h this opts"
  by (subst (1 2) clearQueue.simps) (simp only: or_empty_idem)

lemma query_failure:
  assumes "results (h this) = r # rest"
    and "truthy (options (h this))"
    and "getprop r ''type'' = JStr ''Failure''"
  shows "query h this opts =
           Some (Rejected (getprop r ''content''), h(this := (h this)\<lparr>results := rest\<rparr>))"
proof -
  from assms(3) have "getprop r ''type'' \<noteq> JUndefined" by simp
  then have r: "typeof r = ''object''" "\<not> nullish r"
    using getprop_defined_object by blast+
  from assms(2) have c: "\<not> nullish (options (h this))"
    by (rule truthy_not_nullish)
  show ?thesis
    by (subst query.simps) (simp add: assms(1,3) r c)
qed

section \<open>Failure normalization at enqueue\<close>

text \<open>
  Claim C2. \<^verbatim>\<open>$queueFailure(e, o)\<close> (alias \<^verbatim>\<open>$queueError\<close>) stores the generic
  \<open>BaseError\<close> wrapper around \<open>e\<close> if and only if \<open>o\<close> is absent or
  \<open>o.convertNonErrors\<close> is not explicitly \<^verbatim>\<open>false\<close>, and \<open>e\<close> is not already an
  error; otherwise it stores \<open>e\<close> unchanged. The stored content is what a later query
  rejects with.
\<close>

theorem queueFailure_normalization:
  "getprop (last (results (snd (queueFailure h this e opts) this))) ''content'' =
     (if (opts = JUndefined \<or> getprop opts ''convertNonErrors'' \<noteq> JBool False)
         \<and> \<not> instanceof_Error e
      then JError BaseError e else e)
   \<and> (getprop (last (results (snd (queueFailure h this e opts) this))) ''content'' = JError BaseError e
        \<longleftrightarrow> (opts = JUndefined \<or> getprop opts ''convertNonErrors'' \<noteq> JBool False)
            \<and> \<not> instanceof_Error e)
   \<and> queueError h this e opts = queueFailure h this e opts
   \<and> (results (h this) = [] \<and> truthy (options (h this)) \<longrightarrow>
        map_option fst (query (snd (queueFailure h this e opts)) this q) =
          Some (Rejected
            (if (opts = JUndefined \<or> getprop opts ''convertNonErrors'' \<noteq> JBool False)
                \<and> \<not> instanceof_Error e
             then JError BaseError e else e)))"
proof -
  let ?h = "snd (queueFailure h this e opts)"
  let ?stored = "stored_content (QueueFailure e opts)"
  have res: "results (?h this) = results (h this) @ [stored_entry (QueueFailure e opts)]"
    by (simp add: queueFailure_heap)
  have stored: "getprop (last (results (?h this))) ''content'' = ?stored"
    by (rule queueFailure_stored)
  have iff: "?stored = JError BaseError e
        \<longleftrightarrow> (opts = JUndefined \<or> getprop opts ''convertNonErrors'' \<noteq> JBool False)
            \<and> \<not> instanceof_Error e"
    using JError_neq [of BaseError e] by auto
  have later: "map_option fst (query ?h this q) = Some (Rejected ?stored)"
    if "results (h this) = []" "truthy (options (h this))"
  proof -
    have "results (?h this) = stored_entry (QueueFailure e opts) # []"
      using that(1) res by simp
    moreover have "truthy (options (?h this))"
      using that(2) by (simp add: queueFailure_heap)
    ultimately have "query ?h this q =
        Some (Rejected (getprop (stored_entry (QueueFailure e opts)) ''content''),
              ?h(this := (?h this)\<lparr>results := []\<rparr>))"
      using getprop_entry_Failure(1) by (rule query_failure)
    then show ?thesis
      by (simp only: getprop_entry_Failure option.map fst_conv)
  qed
  show ?thesis
    using stored iff later by (simp add: queueError_def)
qed

text \<open>
  The payload \<^verbatim>\<open>"boom"\<close> queued without options is wrapped and later rejected as the
  wrapper; a payload that is an error already is stored as it is.
\<close>

theorem queueFailure_normalization_witness:
  "getprop (last (results (snd (queueFailure heap0 0 (JStr ''boom'') JUndefined) 0))) ''content''
     = JError BaseError (JStr ''boom'')
   \<and> getprop (last (results (snd (queueFailure heap0 0 (JError (UserError ''CustomError'') JUndefined)
        JUndefined) 0))) ''content'' = JError (UserError ''CustomError'') JUndefined
   \<and> map_option fst (query (snd (queueFailure heap0 0 (JStr ''boom'') JUndefined)) 0 JUndefined)
     = Some (Rejected (JError BaseError (JStr ''boom'')))"
  using queueFailure_normalization [of heap0 0 "JStr ''boom''" JUndefined JUndefined]
    queueFailure_normalization [of heap0 0 "JError (UserError ''CustomError'') JUndefined" JUndefined JUndefined]
  by (simp add: heap0_def new_QueryInterface_def or_empty_def)

text \<open>
  Claim C3 says that \<^verbatim>\<open>$queueFailure(e, {convertNonErrors: false})\<close> still wraps a payload
  \<open>e\<close> that is no error. The guard at line 78 does the opposite: with the flag explicitly
  \<^verbatim>\<open>false\<close> nothing is wrapped, and \<^verbatim>\<open>"boom"\<close> is stored as the bare string.
\<close>

theorem queueFailure_flag_off_counterexample:
  "\<not> instanceof_Error (JStr ''boom'')
   \<and> getprop (last (results (snd (queueFailure heap0 0 (JStr ''boom'')
         (JObject [(''convertNonErrors'', JBool False)])) 0))) ''content'' = JStr ''boom''
   \<and> getprop (last (results (snd (queueFailure heap0 0 (JStr ''boom'')
         (JObject [(''convertNonErrors'', JBool False)])) 0))) ''content''
       \<noteq> JError BaseError (JStr ''boom'')"
  by (simp add: queueFailure_def getprop_def)

text \<open>
  Claim C3, amended. With \<open>convertNonErrors\<close> explicitly \<^verbatim>\<open>false\<close> every payload, error
  or not, is stored unchanged; a payload that is no error is wrapped whenever the flag is
  anything but \<^verbatim>\<open>false\<close>.
\<close>

theorem queueFailure_flag_off:
  "(getprop opts ''convertNonErrors'' = JBool False \<longrightarrow>
      getprop (last (results (snd (queueFailure h this e opts) this))) ''content'' = e)
   \<and> (getprop opts ''convertNonErrors'' \<noteq> JBool False \<and> \<not> instanceof_Error e \<longrightarrow>
      getprop (last (results (snd (queueFailure h this e opts) this))) ''content'' = JError BaseError e)"
proof -
  have "getprop (last (results (snd (queueFailure h this e opts) this))) ''content''
          = stored_content (QueueFailure e opts)"
    by (rule queueFailure_stored)
  then show ?thesis by (auto simp add: getprop_def)
qed

theorem queueFailure_flag_off_witness:
  "getprop (JObject [(''convertNonErrors'', JBool False)]) ''convertNonErrors'' = JBool False
   \<and> getprop (last (results (snd (queueFailure heap0 0 (JStr ''boom'')
         (JObject [(''convertNonErrors'', JBool False)])) 0))) ''content'' = JStr ''boom''
   \<and> getprop (JObject []) ''convertNonErrors'' \<noteq> JBool False
   \<and> \<not> instanceof_Error (JNum 7)
   \<and> getprop (last (results (snd (queueFailure heap0 0 (JNum 7) (JObject [])) 0))) ''content''
       = JError BaseError (JNum 7)"
  using queueFailure_flag_off [of "JObject [(''convertNonErrors'', JBool False)]" heap0 0 "JStr ''boom''"]
    queueFailure_flag_off [of "JObject []" heap0 0 "JNum 7"]
  by (simp add: getprop_def)

section \<open>Scripted failures\<close>

text \<open>
  Claim C7. When the dequeued outcome has kind \<open>Failure\<close>, \<^verbatim>\<open>$query\<close> returns a promise
  rejected with exactly the stored content; the options of the call
  (\<open>includeCreated\<close>, \<open>includeAffectedRows\<close> or any other) do not change the result.
\<close>

theorem failure_rejects_unaltered:
  assumes "results (h this) = r # rest"
    and "truthy (options (h this))"
    and "getprop r ''type'' = JStr ''Failure''"
  shows "query h this opts =
           Some (Rejected (getprop r ''content''), h(this := (h this)\<lparr>results := rest\<rparr>))
         \<and> query h this opts' = query h this opts"
  using assms by (simp add: query_failure)

theorem failure_rejects_unaltered_witness:
  "results (heap_boom 0) = [stored_entry (QueueFailure (JStr ''boom'') JUndefined)]
   \<and> truthy (options (heap_boom 0))
   \<and> getprop (stored_entry (QueueFailure (JStr ''boom'') JUndefined)) ''type'' = JStr ''Failure''
   \<and> query heap_boom 0 (JObject [(''includeCreated'', JBool True), (''includeAffectedRows'', JBool True)])
       = Some (Rejected (JError BaseError (JStr ''boom'')), heap_boom(0 := (heap_boom 0)\<lparr>results := []\<rparr>))
   \<and> query heap_boom 0 JUndefined
       = query heap_boom 0 (JObject [(''includeCreated'', JBool True), (''includeAffectedRows'', JBool True)])"
proof -
  have a: "results (heap_boom 0) = [stored_entry (QueueFailure (JStr ''boom'') JUndefined)]"
    by (simp add: heap_boom_def queueFailure_heap heap0_def new_QueryInterface_def)
  have b: "truthy (options (heap_boom 0))"
    by (simp add: heap_boom_def queueFailure_heap heap0_def new_QueryInterface_def or_empty_def)
  have c: "getprop (stored_entry (QueueFailure (JStr ''boom'') JUndefined)) ''type'' = JStr ''Failure''"
    by (simp add: getprop_def)
  show ?thesis
    using a b c failure_rejects_unaltered [where h = heap_boom and this = 0
        and opts = "JObject [(''includeCreated'', JBool True), (''includeAffectedRows'', JBool True)]"
        and opts' = JUndefined, OF a b c]
    by (simp add: getprop_def)
qed

section \<open>Dequeued entries and the empty queue\<close>

lemma query_invalid:
  assumes "results (h this) = r # rest"
    and "truthy (options (h this))"
    and "typeof r \<noteq> ''object''
         \<or> \<not> nullish r \<and> getprop r ''type'' \<noteq> JStr ''Failure'' \<and> getprop r ''type'' \<noteq> JStr ''Success''"
  shows "query h this opts =
           Some (Thrown (JError InvalidQueryResultError JUndefined),
                 h(this := (h this)\<lparr>results := rest\<rparr>))"
proof -
  from assms(2) have c: "\<not> nullish (options (h this))"
    by (rule truthy_not_nullish)
  show ?thesis
  proof (cases "typeof r = ''object''")
    case True
    with assms(3) have t: "\<not> nullish r" "getprop r ''type'' \<noteq> JStr ''Failure''"
      "getprop r ''type'' \<noteq> JStr ''Success''"
      by simp_all
    show ?thesis
      by (subst query.simps) (simp add: assms(1) c True t)
  next
    case False
    then show ?thesis
      by (subst query.simps) (simp add: assms(1) c)
  qed
qed

text \<open>
  The one malformed head the check of line 133 does not catch: \<^verbatim>\<open>typeof null\<close> is
  \<^verbatim>\<open>'object'\<close>, and reading \<^verbatim>\<open>null.type\<close> raises a \<open>TypeError\<close>. The entry is
  consumed all the same.
\<close>

lemma query_null_entry:
  assumes "results (h this) = JNull # rest"
    and "truthy (options (h this))"
  shows "query h this opts =
           Some (Thrown (JError TypeError JUndefined), h(this := (h this)\<lparr>results := rest\<rparr>))"
  by (subst query.simps) (simp add: assms truthy_not_nullish)

lemma query_created:
  assumes "results (h this) = r # rest"
    and "truthy (options (h this))"
    and "getprop r ''type'' = JStr ''Success''"
    and "\<not> nullish (getprop r ''options'')"
    and "truthy (getprop (or_empty opts) ''includeCreated'')"
  shows "query h this opts =
           Some (Resolved (JArray [getprop r ''content'',
                   JBool (if getprop (getprop r ''options'') ''wasCreated'' \<noteq> JUndefined
                          then truthy (getprop (getprop r ''options'') ''wasCreated'')
                          else if getprop (options (h this)) ''createdDefault'' \<noteq> JUndefined
                          then truthy (getprop (options (h this)) ''createdDefault'')
                          else True)]),
                 h(this := (h this)\<lparr>results := rest\<rparr>))"
proof -
  from assms(3) have "getprop r ''type'' \<noteq> JUndefined" by simp
  then have r: "typeof r = ''object''" "\<not> nullish r"
    using getprop_defined_object by blast+
  from assms(2) have c: "\<not> nullish (options (h this))"
    by (rule truthy_not_nullish)
  show ?thesis
    by (subst query.simps) (simp add: assms(1,3,4,5) r c typeof_undefined)
qed

lemma query_empty_stop:
  assumes "results (h this) = []"
    and "truthy (options (h this))"
    and "truthy (getprop (or_empty opts) ''stopPropagation'')
         \<or> truthy (getprop (options (h this)) ''stopPropagation'')
         \<or> \<not> truthy (getprop (options (h this)) ''parent'')"
  shows "query h this opts =
           Some (if truthy (getprop (or_empty opts) ''fallbackFn'')
                 then call (getprop (or_empty opts) ''fallbackFn'')
                 else if truthy (getprop (options (h this)) ''fallbackFn'')
                 then call (getprop (options (h this)) ''fallbackFn'')
                 else Thrown (JError EmptyQueryQueueError JUndefined), h)"
proof -
  from assms(2) have c: "\<not> nullish (options (h this))"
    by (rule truthy_not_nullish)
  from assms(3) have n: "\<not> (\<not> truthy (getprop (or_empty opts) ''stopPropagation'')
         \<and> \<not> truthy (getprop (options (h this)) ''stopPropagation'')
         \<and> truthy (getprop (options (h this)) ''parent''))"
    by blast
  show ?thesis
    by (subst query.simps) (simp add: assms(1) c n Let_def)
qed

lemma optional_boolean_coerce:
  "optional_boolean v \<Longrightarrow> v \<noteq> JUndefined \<Longrightarrow> JBool (truthy v) = v"
  by (cases v) simp_all

section \<open>Corrupt entries\<close>

text \<open>
  Claim C9. When the head entry of a non-empty queue is malformed (its \<^verbatim>\<open>typeof\<close> is not
  \<^verbatim>\<open>'object'\<close>, or it is an object whose type tag is neither \<^verbatim>\<open>'Success'\<close> nor
  \<^verbatim>\<open>'Failure'\<close>), \<^verbatim>\<open>$query\<close> throws \<open>InvalidQueryResultError\<close> synchronously after
  the entry has been shifted off: the queue is one entry shorter although the call failed,
  and the next \<^verbatim>\<open>$query\<close> is a query on the remaining entries.
\<close>

theorem invalid_entry_is_consumed:
  assumes "results (h this) = r # rest"
    and "truthy (options (h this))"
    and "typeof r \<noteq> ''object''
         \<or> \<not> nullish r \<and> getprop r ''type'' \<noteq> JStr ''Failure'' \<and> getprop r ''type'' \<noteq> JStr ''Success''"
  shows "query h this opts =
           Some (Thrown (JError InvalidQueryResultError JUndefined),
                 h(this := (h this)\<lparr>results := rest\<rparr>))
         \<and> length (results ((h(this := (h this)\<lparr>results := rest\<rparr>)) this)) + 1
             = length (results (h this))
         \<and> Option.bind (query h this opts) (\<lambda>(c, h1). query h1 this opts')
             = query (h(this := (h this)\<lparr>results := rest\<rparr>)) this opts'"
  using assms by (simp add: query_invalid)

theorem invalid_entry_is_consumed_witness:
  "results (heap_corrupt 0) = [JNum 5, stored_entry (QueueResult (JStr ''next'') JUndefined)]
   \<and> truthy (options (heap_corrupt 0))
   \<and> typeof (JNum 5) \<noteq> ''object''
   \<and> query heap_corrupt 0 JUndefined =
       Some (Thrown (JError InvalidQueryResultError JUndefined),
             heap_corrupt(0 := (heap_corrupt 0)\<lparr>results :=
                [stored_entry (QueueResult (JStr ''next'') JUndefined)]\<rparr>))
   \<and> Option.bind (query heap_corrupt 0 JUndefined) (\<lambda>(c, h1). map_option fst (query h1 0 JUndefined))
       = Some (Resolved (JStr ''next''))"
proof -
  have a: "results (heap_corrupt 0) = [JNum 5, stored_entry (QueueResult (JStr ''next'') JUndefined)]"
    by (simp add: heap_corrupt_def)
  have b: "truthy (options (heap_corrupt 0))"
    by (simp add: heap_corrupt_def heap0_def new_QueryInterface_def or_empty_def)
  have c: "typeof (JNum 5) \<noteq> ''object''
         \<or> \<not> nullish (JNum 5) \<and> getprop (JNum 5) ''type'' \<noteq> JStr ''Failure''
            \<and> getprop (JNum 5) ''type'' \<noteq> JStr ''Success''"
    by simp
  have d: "map_option fst (query (heap_corrupt(0 := (heap_corrupt 0)\<lparr>results :=
                [stored_entry (QueueResult (JStr ''next'') JUndefined)]\<rparr>)) 0 JUndefined)
            = Some (Resolved (JStr ''next''))"
    by (subst query.simps) (simp add: b or_empty_def getprop_def truthy_not_nullish)
  from invalid_entry_is_consumed [where h = heap_corrupt and this = 0 and opts = JUndefined
      and opts' = JUndefined, OF a b c]
  show ?thesis using a b d by simp
qed

section \<open>Shape negotiation: the created flag\<close>

text \<open>
  Claim C4. For a Success outcome consumed with \<open>includeCreated\<close> requested, the result
  is the pair of the content and the created flag: the outcome's own \<open>wasCreated\<close> if
  it was set, otherwise the queue's configured \<open>createdDefault\<close> if that was set,
  otherwise \<^verbatim>\<open>true\<close>. The code coerces the chosen value to a boolean (\<^verbatim>\<open>!!\<close>); for
  flags of their documented type, boolean or left out, the flag is the chosen value itself.
\<close>

theorem created_flag_precedence:
  assumes "results (h this) = r # rest"
    and "truthy (options (h this))"
    and "getprop r ''type'' = JStr ''Success''"
    and "\<not> nullish (getprop r ''options'')"
    and "truthy (getprop (or_empty opts) ''includeCreated'')"
  shows "query h this opts =
           Some (Resolved (JArray [getprop r ''content'',
                   JBool (if getprop (getprop r ''options'') ''wasCreated'' \<noteq> JUndefined
                          then truthy (getprop (getprop r ''options'') ''wasCreated'')
                          else if getprop (options (h this)) ''createdDefault'' \<noteq> JUndefined
                          then truthy (getprop (options (h this)) ''createdDefault'')
                          else True)]),
                 h(this := (h this)\<lparr>results := rest\<rparr>))
         \<and> (optional_boolean (getprop (getprop r ''options'') ''wasCreated'')
            \<and> optional_boolean (getprop (options (h this)) ''createdDefault'') \<longrightarrow>
            query h this opts =
              Some (Resolved (JArray [getprop r ''content'',
                      if getprop (getprop r ''options'') ''wasCreated'' \<noteq> JUndefined
                      then getprop (getprop r ''options'') ''wasCreated''
                      else if getprop (options (h this)) ''createdDefault'' \<noteq> JUndefined
                      then getprop (options (h this)) ''createdDefault''
                      else JBool True]),
                    h(this := (h this)\<lparr>results := rest\<rparr>)))"
  using query_created [where h = h and this = this, OF assms] by (simp add: optional_boolean_coerce)

theorem created_flag_precedence_witness:
  "results (heap_created 0) = [stored_entry (QueueResult (JStr ''v'') (JObject [(''wasCreated'', JBool False)]))]
   \<and> truthy (options (heap_created 0))
   \<and> query heap_created 0 (JObject [(''includeCreated'', JBool True)]) =
        Some (Resolved (JArray [JStr ''v'', JBool False]),
              heap_created(0 := (heap_created 0)\<lparr>results := []\<rparr>))
   \<and> results (heap_plain 0) = [stored_entry (QueueResult (JStr ''v'') JUndefined)]
   \<and> query heap_plain 0 (JObject [(''includeCreated'', JBool True)]) =
        Some (Resolved (JArray [JStr ''v'', JBool True]),
              heap_plain(0 := (heap_plain 0)\<lparr>results := []\<rparr>))"
proof -
  let ?o = "JObject [(''includeCreated'', JBool True)]"
  let ?r = "stored_entry (QueueResult (JStr ''v'') (JObject [(''wasCreated'', JBool False)]))"
  let ?r' = "stored_entry (QueueResult (JStr ''v'') JUndefined)"
  have a: "results (heap_created 0) = [?r]"
    and a': "results (heap_plain 0) = [?r']"
    by (simp_all add: heap_created_def heap_plain_def queueResult_heap heap0_def new_QueryInterface_def)
  have b: "truthy (options (heap_created 0))"
    and b': "truthy (options (heap_plain 0))"
    by (simp_all add: heap_created_def heap_plain_def queueResult_heap heap0_def
        new_QueryInterface_def or_empty_def)
  have c: "getprop ?r ''type'' = JStr ''Success''"
    and c': "getprop ?r' ''type'' = JStr ''Success''"
    by (simp_all add: getprop_def)
  have d: "\<not> nullish (getprop ?r ''options'')"
    and d': "\<not> nullish (getprop ?r' ''options'')"
    by (simp_all add: getprop_def or_empty_def)
  have e: "truthy (getprop (or_empty ?o) ''includeCreated'')"
    by (simp add: getprop_def or_empty_def)
  from created_flag_precedence [where h = heap_created and this = 0 and opts = ?o, OF a b c d e]
    created_flag_precedence [where h = heap_plain and this = 0 and opts = ?o, OF a' b' c' d' e]
  show ?thesis using a b a'
    by (simp add: getprop_def or_empty_def heap_created_def heap_plain_def queueResult_heap
        heap0_def new_QueryInterface_def)
qed

section \<open>Exhaustion\<close>

text \<open>
  Claim C6. For a queue with nothing pending, if delegation does not apply (the call's
  \<open>stopPropagation\<close> is set, or the queue's configured one is, or there is no parent)
  and neither the call nor the configuration supplies a fallback producer, \<^verbatim>\<open>$query\<close>
  throws \<open>EmptyQueryQueueError\<close> synchronously (a throw, not a rejected promise) and
  leaves the store as it was; so does \<^verbatim>\<open>query({stopPropagation: true})\<close> on a child
  whose parent has a result queued.
\<close>

theorem exhaustion_raises:
  assumes "results (h this) = []"
    and "truthy (options (h this))"
    and "truthy (getprop (or_empty opts) ''stopPropagation'')
         \<or> truthy (getprop (options (h this)) ''stopPropagation'')
         \<or> \<not> truthy (getprop (options (h this)) ''parent'')"
    and "\<not> truthy (getprop (or_empty opts) ''fallbackFn'')"
    and "\<not> truthy (getprop (options (h this)) ''fallbackFn'')"
  shows "query h this opts = Some (Thrown (JError EmptyQueryQueueError JUndefined), h)"
  using query_empty_stop [where h = h and this = this, OF assms(1,2,3)] assms(4,5) by simp

theorem exhaustion_raises_witness:
  "results (heap_AB_populated 0) = []
   \<and> results (heap_AB_populated 1) = [stored_entry (QueueResult (JStr ''v'') JUndefined)]
   \<and> getprop (options (heap_AB_populated 0)) ''parent'' = JQueue 1
   \<and> query heap_AB_populated 0 (JObject [(''stopPropagation'', JBool True)])
       = Some (Thrown (JError EmptyQueryQueueError JUndefined), heap_AB_populated)
   \<and> query heap0 0 JUndefined = Some (Thrown (JError EmptyQueryQueueError JUndefined), heap0)"
proof -
  let ?o = "JObject [(''stopPropagation'', JBool True)]"
  have h: "heap_AB_populated 0 = new_QueryInterface (JObject [(''parent'', JQueue 1)])"
    "results (heap_AB_populated 1) = [stored_entry (QueueResult (JStr ''v'') JUndefined)]"
    by (simp_all add: heap_AB_populated_def queueResult_heap heap_AB_def heap0_def new_QueryInterface_def)
  have a: "results (heap_AB_populated 0) = []"
    and b: "truthy (options (heap_AB_populated 0))"
    and p: "getprop (options (heap_AB_populated 0)) ''parent'' = JQueue 1"
    and e: "\<not> truthy (getprop (options (heap_AB_populated 0)) ''fallbackFn'')"
    by (simp_all add: h new_QueryInterface_def or_empty_def getprop_def)
  have c: "truthy (getprop (or_empty ?o) ''stopPropagation'')
         \<or> truthy (getprop (options (heap_AB_populated 0)) ''stopPropagation'')
         \<or> \<not> truthy (getprop (options (heap_AB_populated 0)) ''parent'')"
    and d: "\<not> truthy (getprop (or_empty ?o) ''fallbackFn'')"
    by (simp_all add: or_empty_def getprop_def)
  have a0: "results (heap0 0) = []" and b0: "truthy (options (heap0 0))"
    and c0: "truthy (getprop (or_empty JUndefined) ''stopPropagation'')
         \<or> truthy (getprop (options (heap0 0)) ''stopPropagation'')
         \<or> \<not> truthy (getprop (options (heap0 0)) ''parent'')"
    and d0: "\<not> truthy (getprop (or_empty JUndefined) ''fallbackFn'')"
    and e0: "\<not> truthy (getprop (options (heap0 0)) ''fallbackFn'')"
    by (simp_all add: heap0_def new_QueryInterface_def or_empty_def getprop_def)
  from exhaustion_raises [where h = heap_AB_populated and this = 0, OF a b c d e]
    exhaustion_raises [where h = heap0 and this = 0, OF a0 b0 c0 d0 e0]
  show ?thesis using a h(2) p by simp
qed

section \<open>Following the parent references\<close>

lemma query_delegate:
  assumes "results (h this) = []"
    and "getprop (options (h this)) ''parent'' = JQueue p"
    and "\<not> truthy (getprop (or_empty opts) ''stopPropagation'')"
    and "\<not> truthy (getprop (options (h this)) ''stopPropagation'')"
  shows "query h this opts = query h p opts"
proof -
  from assms(2) have "getprop (options (h this)) ''parent'' \<noteq> JUndefined" by simp
  then have c: "\<not> nullish (options (h this))"
    using getprop_defined_object by blast
  have "query h this opts = query h p (or_empty opts)"
    by (subst query.simps) (simp add: assms c)
  then show ?thesis
    by (simp only: query_or_empty)
qed

lemma query_dequeue_heap:
  assumes "results (h this) = r # rest"
    and "truthy (options (h this))"
  shows "map_option snd (query h this opts) = Some (h(this := (h this)\<lparr>results := rest\<rparr>))"
proof -
  from assms(2) have c: "\<not> nullish (options (h this))"
    by (rule truthy_not_nullish)
  show ?thesis
    by (subst query.simps) (simp add: assms(1) c Let_def)
qed

lemma query_effect:
  assumes "query h this opts = Some y"
  shows "snd y = h \<or> (\<exists>b x rest. results (h b) = x # rest \<and> snd y = h(b := (h b)\<lparr>results := rest\<rparr>))"
proof (rule query.raw_induct
    [where P = "\<lambda>h this opts y. snd y = h \<or> (\<exists>b x rest. results (h b) = x # rest \<and> snd y = h(b := (h b)\<lparr>results := rest\<rparr>))",
      OF _ assms], goal_cases)
  case (1 q h this opts0 y)
  note IH = 1(1) and body = 1(2)
  show ?case
  proof (cases "\<not> truthy (getprop (or_empty opts0) ''fallbackFn'') \<and> nullish (options (h this))")
    case True
    with body show ?thesis by (auto simp add: Let_def)
  next
    case guard: False
    show ?thesis
    proof (cases "results (h this)")
      case (Cons r rest)
      with body guard have "snd y = h(this := (h this)\<lparr>results := rest\<rparr>)"
        by (auto simp add: Let_def)
      with Cons show ?thesis by blast
    next
      case Nil
      show ?thesis
      proof (cases "\<not> truthy (getprop (or_empty opts0) ''stopPropagation'')
                    \<and> \<not> nullish (options (h this))
                    \<and> \<not> truthy (getprop (options (h this)) ''stopPropagation'')
                    \<and> truthy (getprop (options (h this)) ''parent'')")
        case True
        show ?thesis
        proof (cases "getprop (options (h this)) ''parent''")
          case (JQueue p)
          with body guard Nil True have "q h p (or_empty opts0) = Some y"
            by (simp add: Let_def)
          then show ?thesis by (rule IH)
        qed (use body guard Nil True in \<open>auto simp add: Let_def\<close>)
      next
        case False
        with body guard Nil have "snd y = h"
          by (auto simp add: Let_def split: if_splits)
        then show ?thesis ..
      qed
    qed
  qed
qed

lemma query_frame:
  assumes "query h this opts = Some y" and "results (h a) = []"
  shows "snd y a = h a"
  using query_effect [OF assms(1)] assms(2) by auto

lemma delegation_path_query:
  "delegation_path h opts a bs \<Longrightarrow> query h a opts = query h (last (a # bs)) opts"
proof (induction bs arbitrary: a)
  case Nil
  then show ?case by simp
next
  case (Cons b bs)
  then have "query h a opts = query h b opts"
    by (simp add: query_delegate)
  also from Cons have "\<dots> = query h (last (b # bs)) opts"
    by simp
  finally show ?case by simp
qed

section \<open>Delegation\<close>

text \<open>
  Claim C5. A queue \<open>a\<close> with nothing pending, with parent \<open>b\<close>, and with neither the
  call's nor its own \<open>stopPropagation\<close> set, answers \<^verbatim>\<open>$query(options)\<close> with exactly
  what \<^verbatim>\<open>b.$query(options)\<close> answers, result and effect on the store alike, and so on
  along any chain of such parents. When \<open>b\<close> dequeues, its pending list loses its head,
  and the pending list of \<open>a\<close> is the same after the call as before.
\<close>

theorem delegation:
  assumes "results (h a) = []"
    and "getprop (options (h a)) ''parent'' = JQueue b"
    and "\<not> truthy (getprop (or_empty opts) ''stopPropagation'')"
    and "\<not> truthy (getprop (options (h a)) ''stopPropagation'')"
  shows "query h a opts = query h b opts
     \<and> (delegation_path h opts b bs \<longrightarrow> query h a opts = query h (last (b # bs)) opts)
     \<and> (\<forall>c h'. query h a opts = Some (c, h') \<longrightarrow> h' a = h a)
     \<and> (\<forall>r rest. results (h b) = r # rest \<and> truthy (options (h b)) \<longrightarrow>
           map_option snd (query h a opts) = Some (h(b := (h b)\<lparr>results := rest\<rparr>)))"
proof -
  have step: "query h a opts = query h b opts"
    using assms by (rule query_delegate)
  have chain: "query h a opts = query h (last (b # bs)) opts" if "delegation_path h opts b bs"
    using step delegation_path_query [OF that] by simp
  have frame: "h' a = h a" if "query h a opts = Some (c, h')" for c h'
    using query_frame [OF that assms(1)] by simp
  have shrink: "map_option snd (query h a opts) = Some (h(b := (h b)\<lparr>results := rest\<rparr>))"
    if "results (h b) = r # rest" "truthy (options (h b))" for r rest
    using step query_dequeue_heap [where h = h and this = b, OF that] by simp
  show ?thesis
    using step chain frame shrink by blast
qed

theorem delegation_witness:
  "results (heap_ABC_populated 0) = []
   \<and> getprop (options (heap_ABC_populated 0)) ''parent'' = JQueue 1
   \<and> delegation_path heap_ABC_populated JUndefined 1 [2]
   \<and> results (heap_ABC_populated 2) = [stored_entry (QueueResult (JStr ''v'') JUndefined)]
   \<and> query heap_ABC_populated 0 JUndefined =
       Some (Resolved (JStr ''v''), heap_ABC_populated(2 := (heap_ABC_populated 2)\<lparr>results := []\<rparr>))
   \<and> results ((heap_ABC_populated(2 := (heap_ABC_populated 2)\<lparr>results := []\<rparr>)) 0) = []"
proof -
  let ?h = heap_ABC_populated
  have q: "?h 0 = new_QueryInterface (JObject [(''parent'', JQueue 1)])"
    "?h (Suc 0) = new_QueryInterface (JObject [(''parent'', JQueue 2)])"
    "?h 2 = (new_QueryInterface JUndefined)\<lparr>results := [stored_entry (QueueResult (JStr ''v'') JUndefined)]\<rparr>"
    by (simp_all add: heap_ABC_populated_def queueResult_heap heap_ABC_def heap_AB_def heap0_def
        new_QueryInterface_def)
  have a: "results (?h 0) = []"
    and b: "getprop (options (?h 0)) ''parent'' = JQueue 1"
    and c: "\<not> truthy (getprop (or_empty JUndefined) ''stopPropagation'')"
    and d: "\<not> truthy (getprop (options (?h 0)) ''stopPropagation'')"
    and p: "delegation_path ?h JUndefined 1 [2]"
    and r: "results (?h 2) = [stored_entry (QueueResult (JStr ''v'') JUndefined)]"
    and t: "truthy (options (?h 2))"
    by (simp_all add: q new_QueryInterface_def or_empty_def getprop_def)
  have top: "query ?h 2 JUndefined =
       Some (Resolved (JStr ''v''), ?h(2 := (?h 2)\<lparr>results := []\<rparr>))"
    by (subst query.simps) (simp add: r t truthy_not_nullish or_empty_def getprop_def)
  from delegation [where h = ?h and a = 0 and b = 1 and opts = JUndefined and bs = "[2]", OF a b c d]
  have "query ?h 0 JUndefined = query ?h (last [1, 2]) JUndefined"
    using p by blast
  then have "query ?h 0 JUndefined = Some (Resolved (JStr ''v''), ?h(2 := (?h 2)\<lparr>results := []\<rparr>))"
    using top by simp
  then show ?thesis using a b p r by simp
qed

text \<open>
  Claim C10. A delegated call carries the options object only. When \<open>a\<close> delegates (one
  step or many) and the delegation stops at an exhausted queue \<open>z\<close>, the producer that
  runs is the call's own \<open>fallbackFn\<close> or else the one configured on \<open>z\<close>, and
  without either the call throws \<open>EmptyQueryQueueError\<close>; \<open>z\<close> is never \<open>a\<close>, so
  whatever fallback is configured on \<open>a\<close> plays no part.
\<close>

theorem configured_fallback_not_forwarded:
  assumes "delegation_path h opts a (b # bs)"
    and "last (b # bs) = z"
    and "results (h z) = []"
    and "truthy (options (h z))"
    and "truthy (getprop (options (h z)) ''stopPropagation'')
         \<or> \<not> truthy (getprop (options (h z)) ''parent'')"
  shows "query h a opts =
           Some (if truthy (getprop (or_empty opts) ''fallbackFn'')
                 then call (getprop (or_empty opts) ''fallbackFn'')
                 else if truthy (getprop (options (h z)) ''fallbackFn'')
                 then call (getprop (options (h z)) ''fallbackFn'')
                 else Thrown (JError EmptyQueryQueueError JUndefined), h)
         \<and> z \<noteq> a"
proof -
  have "query h a opts = query h (last (a # b # bs)) opts"
    using assms(1) by (rule delegation_path_query)
  then have "query h a opts = query h z opts"
    using assms(2) by simp
  moreover have "truthy (getprop (or_empty opts) ''stopPropagation'')
         \<or> truthy (getprop (options (h z)) ''stopPropagation'')
         \<or> \<not> truthy (getprop (options (h z)) ''parent'')"
    using assms(5) by blast
  note query_empty_stop [where h = h and this = z and opts = opts, OF assms(3,4) this]
  moreover have "z \<noteq> a"
    using assms(1,5) by auto
  ultimately show ?thesis by simp
qed

theorem configured_fallback_not_forwarded_witness:
  "truthy (getprop (options (heap_fallback 0)) ''fallbackFn'')
   \<and> delegation_path heap_fallback (JObject []) 0 [1]
   \<and> results (heap_fallback 1) = []
   \<and> query heap_fallback 0 (JObject []) =
       Some (Thrown (JError EmptyQueryQueueError JUndefined), heap_fallback)"
proof -
  let ?h = heap_fallback
  have q: "?h 0 = new_QueryInterface
      (JObject [(''parent'', JQueue 1), (''fallbackFn'', JFunction (Resolved (JNum 42)))])"
    "?h (Suc 0) = new_QueryInterface JUndefined"
    by (simp_all add: heap_fallback_def heap0_def)
  have f: "truthy (getprop (options (?h 0)) ''fallbackFn'')"
    and p: "delegation_path ?h (JObject []) 0 [1]"
    and l: "last [1] = (1::nat)"
    and e: "results (?h 1) = []"
    and t: "truthy (options (?h 1))"
    and s: "truthy (getprop (options (?h 1)) ''stopPropagation'')
         \<or> \<not> truthy (getprop (options (?h 1)) ''parent'')"
    by (simp_all add: q new_QueryInterface_def or_empty_def getprop_def)
  from configured_fallback_not_forwarded [where h = ?h and a = 0 and b = 1 and bs = "[]"
      and z = 1 and opts = "JObject []", OF p l e t s]
  show ?thesis using f p e
    by (simp add: q new_QueryInterface_def or_empty_def getprop_def)
qed

section \<open>Clearing the queue\<close>

lemma clearQueue_local:
  assumes "\<not> truthy (getprop (or_empty opts) ''propagateClear'')
           \<or> \<not> nullish (options (h this)) \<and> \<not> truthy (getprop (options (h this)) ''parent'')"
  shows "clearQueue h this opts = Some (Returned (JQueue this), h(this := (h this)\<lparr>results := []\<rparr>))"
  using assms by (subst clearQueue.simps) (auto simp add: Let_def)

lemma clearQueue_propagate:
  assumes "truthy (getprop (or_empty opts) ''propagateClear'')"
    and "getprop (options (h this)) ''parent'' = JQueue p"
  shows "clearQueue h this opts =
           Option.bind (clearQueue (h(this := (h this)\<lparr>results := []\<rparr>)) p opts)
             (\<lambda>(r, h2). case r of
                  Thrown e \<Rightarrow> Some (Thrown e, h2)
                | _ \<Rightarrow> Some (Returned (JQueue this), h2))"
proof -
  from assms(2) have "getprop (options (h this)) ''parent'' \<noteq> JUndefined" by simp
  then have c: "\<not> nullish (options (h this))"
    using getprop_defined_object by blast
  have "clearQueue h this opts =
           Option.bind (clearQueue (h(this := (h this)\<lparr>results := []\<rparr>)) p (or_empty opts))
             (\<lambda>(r, h2). case r of
                  Thrown e \<Rightarrow> Some (Thrown e, h2)
                | _ \<Rightarrow> Some (Returned (JQueue this), h2))"
    by (subst clearQueue.simps) (simp add: assms c Let_def)
  then show ?thesis
    by (simp only: clearQueue_or_empty)
qed

lemma parent_chain_results:
  "parent_chain (h(x := (h x)\<lparr>results := rs\<rparr>)) a bs = parent_chain h a bs"
  by (induction bs arbitrary: a) simp_all

lemma clearQueue_chain:
  assumes "truthy (getprop (or_empty opts) ''propagateClear'')"
  shows "parent_chain h a bs \<Longrightarrow>
     clearQueue h a opts =
       Some (Returned (JQueue a), (\<lambda>x. if x \<in> set (a # bs) then (h x)\<lparr>results := []\<rparr> else h x))"
proof (induction bs arbitrary: h a)
  case Nil
  then have "clearQueue h a opts = Some (Returned (JQueue a), h(a := (h a)\<lparr>results := []\<rparr>))"
    by (simp add: clearQueue_local)
  moreover have "h(a := (h a)\<lparr>results := []\<rparr>) = (\<lambda>x. if x \<in> set [a] then (h x)\<lparr>results := []\<rparr> else h x)"
    by auto
  ultimately show ?case by simp
next
  case (Cons b bs)
  let ?h1 = "h(a := (h a)\<lparr>results := []\<rparr>)"
  from Cons.prems have p: "getprop (options (h a)) ''parent'' = JQueue b"
    and rest: "parent_chain ?h1 b bs"
    by (simp_all add: parent_chain_results)
  have "clearQueue ?h1 b opts =
      Some (Returned (JQueue b), (\<lambda>x. if x \<in> set (b # bs) then (?h1 x)\<lparr>results := []\<rparr> else ?h1 x))"
    using rest by (rule Cons.IH)
  then have "clearQueue h a opts =
      Some (Returned (JQueue a), (\<lambda>x. if x \<in> set (b # bs) then (?h1 x)\<lparr>results := []\<rparr> else ?h1 x))"
    by (simp add: clearQueue_propagate [where h = h and this = a, OF assms p])
  moreover have "(\<lambda>x. if x \<in> set (b # bs) then (?h1 x)\<lparr>results := []\<rparr> else ?h1 x)
      = (\<lambda>x. if x \<in> set (a # b # bs) then (h x)\<lparr>results := []\<rparr> else h x)"
    by auto
  ultimately show ?case by simp
qed

lemma clearQueue_effect:
  assumes "clearQueue h this opts = Some y"
  shows "results (snd y this) = [] \<and> (\<forall>b. snd y b = h b \<or> snd y b = (h b)\<lparr>results := []\<rparr>)"
proof (rule clearQueue.raw_induct
    [where P = "\<lambda>h this opts y. results (snd y this) = [] \<and> (\<forall>b. snd y b = h b \<or> snd y b = (h b)\<lparr>results := []\<rparr>)",
      OF _ assms], goal_cases)
  case (1 cq h this opts0 y)
  note IH = 1(1) and body = 1(2)
  let ?h1 = "h(this := (h this)\<lparr>results := []\<rparr>)"
  have h1: "results (?h1 this) = []" "\<And>b. ?h1 b = h b \<or> ?h1 b = (h b)\<lparr>results := []\<rparr>"
    by simp_all
  show ?case
  proof (cases "truthy (getprop (or_empty opts0) ''propagateClear'')
                \<and> \<not> nullish (options (h this))
                \<and> truthy (getprop (options (h this)) ''parent'')")
    case True
    show ?thesis
    proof (cases "getprop (options (h this)) ''parent''")
      case (JQueue p)
      with body True obtain r h2 where rec: "cq ?h1 p (or_empty opts0) = Some (r, h2)"
        and y: "snd y = h2"
        by (auto simp add: Let_def split: Option.bind_splits completion.splits)
      from IH [OF rec] have a: "\<And>b. h2 b = ?h1 b \<or> h2 b = (?h1 b)\<lparr>results := []\<rparr>"
        by simp
      have "results (h2 this) = []"
        using a [of this] by auto
      moreover have "h2 b = h b \<or> h2 b = (h b)\<lparr>results := []\<rparr>" for b
        using a [of b] by (cases "b = this") auto
      ultimately show ?thesis using y by simp
    qed (use body True in \<open>auto simp add: Let_def\<close>)
  next
    case False
    with body have "snd y = ?h1"
      by (auto simp add: Let_def split: if_splits)
    with h1 show ?thesis by simp
  qed
qed

text \<open>
  Claim C8. \<^verbatim>\<open>$clearQueue(options)\<close> leaves the queue's own pending list empty whenever it
  returns. Without \<open>propagateClear\<close> it returns the queue itself and changes nothing
  else, so the parent keeps its entries. With \<open>propagateClear\<close> and a parent it calls
  \<^verbatim>\<open>$clearQueue\<close> on the parent with the same options, and along a chain of parents
  that ends the clear reaches every ancestor and the call returns the queue itself.
\<close>

theorem clearQueue_cascades:
  "(\<forall>c h'. clearQueue h a opts = Some (c, h') \<longrightarrow> results (h' a) = [])
   \<and> (\<not> truthy (getprop (or_empty opts) ''propagateClear'') \<longrightarrow>
        clearQueue h a opts = Some (Returned (JQueue a), h(a := (h a)\<lparr>results := []\<rparr>)))
   \<and> (truthy (getprop (or_empty opts) ''propagateClear'') \<and> getprop (options (h a)) ''parent'' = JQueue b \<longrightarrow>
        clearQueue h a opts =
          Option.bind (clearQueue (h(a := (h a)\<lparr>results := []\<rparr>)) b opts)
            (\<lambda>(r, h2). case r of
                 Thrown e \<Rightarrow> Some (Thrown e, h2)
               | _ \<Rightarrow> Some (Returned (JQueue a), h2)))
   \<and> (truthy (getprop (or_empty opts) ''propagateClear'') \<and> parent_chain h a bs \<longrightarrow>
        clearQueue h a opts =
          Some (Returned (JQueue a), (\<lambda>x. if x \<in> set (a # bs) then (h x)\<lparr>results := []\<rparr> else h x)))"
proof (intro conjI allI impI)
  fix c h'
  assume "clearQueue h a opts = Some (c, h')"
  from clearQueue_effect [OF this] show "results (h' a) = []"
    by simp
next
  assume "\<not> truthy (getprop (or_empty opts) ''propagateClear'')"
  then show "clearQueue h a opts = Some (Returned (JQueue a), h(a := (h a)\<lparr>results := []\<rparr>))"
    by (simp add: clearQueue_local)
next
  assume "truthy (getprop (or_empty opts) ''propagateClear'') \<and> getprop (options (h a)) ''parent'' = JQueue b"
  then show "clearQueue h a opts =
          Option.bind (clearQueue (h(a := (h a)\<lparr>results := []\<rparr>)) b opts)
            (\<lambda>(r, h2). case r of
                 Thrown e \<Rightarrow> Some (Thrown e, h2)
               | _ \<Rightarrow> Some (Returned (JQueue a), h2))"
    using clearQueue_propagate [where h = h and this = a and p = b and opts = opts] by blast
next
  assume "truthy (getprop (or_empty opts) ''propagateClear'') \<and> parent_chain h a bs"
  then show "clearQueue h a opts =
          Some (Returned (JQueue a), (\<lambda>x. if x \<in> set (a # bs) then (h x)\<lparr>results := []\<rparr> else h x))"
    using clearQueue_chain [where h = h and a = a and bs = bs and opts = opts] by blast
qed

theorem clearQueue_cascades_witness:
  "results (heap_both 0) \<noteq> [] \<and> results (heap_both 1) \<noteq> []
   \<and> parent_chain heap_both 0 [1]
   \<and> clearQueue heap_both 0 propagate =
        Some (Returned (JQueue 0),
              (\<lambda>x. if x \<in> set [0, 1] then (heap_both x)\<lparr>results := []\<rparr> else heap_both x))
   \<and> clearQueue heap_both 0 JUndefined =
        Some (Returned (JQueue 0), heap_both(0 := (heap_both 0)\<lparr>results := []\<rparr>))
   \<and> results ((heap_both(0 := (heap_both 0)\<lparr>results := []\<rparr>)) 1) = results (heap_both 1)"
proof -
  let ?h = heap_both
  have q: "?h 0 = (new_QueryInterface (JObject [(''parent'', JQueue 1)]))
              \<lparr>results := [stored_entry (QueueResult (JNum 1) JUndefined)]\<rparr>"
    "?h (Suc 0) = (new_QueryInterface JUndefined)
              \<lparr>results := [stored_entry (QueueResult (JNum 2) JUndefined)]\<rparr>"
    by (simp_all add: heap_both_def queueResult_heap heap_AB_def heap0_def new_QueryInterface_def)
  have n: "results (?h 0) \<noteq> []" "results (?h 1) \<noteq> []"
    and p: "parent_chain ?h 0 [1]"
    and t: "truthy (getprop (or_empty propagate) ''propagateClear'')"
    and u: "\<not> truthy (getprop (or_empty JUndefined) ''propagateClear'')"
    by (simp_all add: q new_QueryInterface_def or_empty_def getprop_def propagate_def)
  from clearQueue_cascades [where h = ?h and a = 0 and opts = propagate and bs = "[1]"]
    clearQueue_cascades [where h = ?h and a = 0 and opts = JUndefined]
  show ?thesis using n p t u by simp
qed

section \<open>First in, first out\<close>

lemma enqueue_all_results:
  "enqueue_all h this cs = h(this := (h this)\<lparr>results := results (h this) @ map stored_entry cs\<rparr>)"
proof (induction cs arbitrary: h)
  case Nil
  show ?case by simp
next
  case (Cons c cs)
  show ?case
    by (cases c) (auto simp add: Cons queueResult_heap queueFailure_heap fun_eq_iff simp del: stored_entry.simps)
qed

lemma query_stored_entry:
  assumes "results (h this) = stored_entry c # rest"
    and "truthy (options (h this))"
  shows "query h this JUndefined = Some (fifo_outcome c, h(this := (h this)\<lparr>results := rest\<rparr>))"
proof (cases c)
  case (QueueResult v opts)
  from assms(2) have n: "\<not> nullish (options (h this))"
    by (rule truthy_not_nullish)
  show ?thesis
    by (subst query.simps) (simp add: assms(1) n QueueResult or_empty_def getprop_def)
next
  case (QueueFailure e opts)
  have "query h this JUndefined =
      Some (Rejected (getprop (stored_entry c) ''content''), h(this := (h this)\<lparr>results := rest\<rparr>))"
    using assms unfolding QueueFailure
    by (rule query_failure) (rule getprop_entry_Failure)
  then show ?thesis
    by (simp only: QueueFailure getprop_entry_Failure fifo_outcome.simps)
qed

lemma query_n_entries:
  "truthy (options (h this)) \<Longrightarrow> results (h this) = map stored_entry cs @ rest \<Longrightarrow>
     query_n h this (length cs) = Some (map fifo_outcome cs, h(this := (h this)\<lparr>results := rest\<rparr>))"
proof (induction cs arbitrary: h)
  case Nil
  then have "h(this := (h this)\<lparr>results := rest\<rparr>) = h"
    by auto
  then show ?case by simp
next
  case (Cons c cs)
  let ?h1 = "h(this := (h this)\<lparr>results := map stored_entry cs @ rest\<rparr>)"
  from Cons.prems have "results (h this) = stored_entry c # (map stored_entry cs @ rest)"
    by simp
  then have first: "query h this JUndefined = Some (fifo_outcome c, ?h1)"
    using Cons.prems(1) by (rule query_stored_entry)
  have "query_n ?h1 this (length cs) =
      Some (map fifo_outcome cs, ?h1(this := (?h1 this)\<lparr>results := rest\<rparr>))"
    using Cons.prems(1) by (intro Cons.IH) simp_all
  then have second: "query_n ?h1 this (length cs) =
      Some (map fifo_outcome cs, h(this := (h this)\<lparr>results := rest\<rparr>))"
    by simp
  show ?case
    by (simp add: first second del: fun_upd_apply)
qed

lemma query_n_enqueue_all:
  assumes "results (h this) = []"
    and "truthy (options (h this))"
  shows "query_n (enqueue_all h this cs) this (length cs) = Some (map fifo_outcome cs, h)"
proof -
  let ?h = "enqueue_all h this cs"
  have r: "results (?h this) = map stored_entry cs @ []"
    and t: "truthy (options (?h this))"
    using assms by (simp_all add: enqueue_all_results)
  have "query_n ?h this (length cs) = Some (map fifo_outcome cs, ?h(this := (?h this)\<lparr>results := []\<rparr>))"
    using t r by (rule query_n_entries)
  moreover have "?h(this := (?h this)\<lparr>results := []\<rparr>) = h"
    using assms(1) by (auto simp add: enqueue_all_results)
  ultimately show ?thesis by simp
qed

text \<open>
  Claim C1 says that \<open>n\<close> queries after \<open>n\<close> enqueue calls with contents \<open>c1..cn\<close>
  resolve with, or reject with, \<open>c1..cn\<close>. For a failure that is not so whenever the
  payload is wrapped at enqueue time (line 80): after \<^verbatim>\<open>$queueFailure("boom")\<close> on a fresh
  queue the one query rejects with the \<open>BaseError\<close> wrapper, not with \<^verbatim>\<open>"boom"\<close>.
\<close>

theorem fifo_law_counterexample:
  "results (heap0 0) = []
   \<and> query_n (enqueue_all heap0 0 [QueueFailure (JStr ''boom'') JUndefined]) 0 (Suc 0)
       = Some ([Rejected (JError BaseError (JStr ''boom''))], heap0)
   \<and> query_n (enqueue_all heap0 0 [QueueFailure (JStr ''boom'') JUndefined]) 0 (Suc 0)
       \<noteq> Some (map payload_outcome [QueueFailure (JStr ''boom'') JUndefined], heap0)"
proof -
  have a: "results (heap0 0) = []" and b: "truthy (options (heap0 0))"
    by (simp_all add: heap0_def new_QueryInterface_def or_empty_def)
  have "query_n (enqueue_all heap0 0 [QueueFailure (JStr ''boom'') JUndefined]) 0
          (length [QueueFailure (JStr ''boom'') JUndefined])
        = Some (map fifo_outcome [QueueFailure (JStr ''boom'') JUndefined], heap0)"
    using a b by (rule query_n_enqueue_all)
  then have "query_n (enqueue_all heap0 0 [QueueFailure (JStr ''boom'') JUndefined]) 0 (Suc 0)
        = Some ([Rejected (JError BaseError (JStr ''boom''))], heap0)"
    by simp
  then show ?thesis using a by simp
qed

text \<open>
  Claim C1, amended. On a queue with nothing pending, after any sequence of \<open>n\<close> enqueue
  calls (\<^verbatim>\<open>$queueResult\<close> and \<^verbatim>\<open>$queueFailure\<close> in any mix), \<open>n\<close> consecutive
  \<^verbatim>\<open>$query()\<close> calls hand over, in exactly the order of the enqueue calls, the contents
  as stored: a success resolves with its payload, a failure rejects with its payload when
  that is an error already or \<open>convertNonErrors\<close> was explicitly \<^verbatim>\<open>false\<close>, and with
  the \<open>BaseError\<close> wrapper around its payload otherwise. After the \<open>n\<close>-th call the queue
  is empty again: the store is back to what it was before the first enqueue call.
\<close>

theorem fifo_law:
  assumes "results (h this) = []"
    and "truthy (options (h this))"
  shows "query_n (enqueue_all h this cs) this (length cs) = Some (map fifo_outcome cs, h)"
  using assms by (rule query_n_enqueue_all)

theorem fifo_law_witness:
  "results (heap0 0) = [] \<and> truthy (options (heap0 0))
   \<and> length script3 = 3
   \<and> query_n (enqueue_all heap0 0 script3) 0 (length script3) =
       Some ([Resolved (JNum 1), Rejected (JError BaseError (JStr ''boom'')), Resolved (JNum 3)], heap0)"
proof -
  have a: "results (heap0 0) = []" and b: "truthy (options (heap0 0))"
    by (simp_all add: heap0_def new_QueryInterface_def or_empty_def)
  have c: "map fifo_outcome script3 =
      [Resolved (JNum 1), Rejected (JError BaseError (JStr ''boom'')), Resolved (JNum 3)]"
    and d: "length script3 = 3"
    by (simp_all add: script3_def)
  from fifo_law [where h = heap0 and this = 0 and cs = script3, OF a b]
  show ?thesis using a b d by (simp only: c simp_thms)
qed

end
